theory Spec2Isabelle
  imports Main "HOL-Library.AList"
begin

section \<open>Values, errors and the outside world\<close>

text \<open>
  The orchestration core of the repository is the class \<open>AgentManager\<close> of
  \<open>agent_core/core/agent_manager.py\<close> together with the routes of
  \<open>agent_core/api/routes.py\<close>. Python values that travel as JSON (task data, tool
  parameters, results relayed from a tool service) are values of \<open>pyval\<close>; a Python
  \<open>dict\<close> keeps its insertion order, so it is an association list (its keys are
  distinct, as the keys of a decoded JSON object are). A float is only ever carried, never
  computed with: \<open>PFloat m k\<close> stands for the decimal \<open>m / 10^k\<close>.
\<close>

datatype pyval =
    PNone
  | PBool bool
  | PInt int
  | PFloat int nat
  | PStr string
  | PList "pyval list"
  | PDict "(string \<times> pyval) list"

text \<open>
  Exceptions are values. The message literals of the source are Chinese; the model
  carries an ASCII rendering of each literal, and the interpolated parts (\<open>{e}\<close>,
  \<open>{tool_type}\<close>) are kept as the source interpolates them.
\<close>

datatype py_error =
    PyException string
  | ValueError string
  | AttributeError string
  | KeyError string
  | TypeError string
  | IndexError string
  | RequestError string
  | HTTPStatusError nat string

fun str_of_error :: "py_error \<Rightarrow> string" where
  "str_of_error (PyException m) = m"
| "str_of_error (ValueError m) = m"
| "str_of_error (AttributeError m) = m"
| "str_of_error (KeyError k) = [CHR 0x27] @ k @ [CHR 0x27]"
| "str_of_error (TypeError m) = m"
| "str_of_error (IndexError m) = m"
| "str_of_error (RequestError m) = m"
| "str_of_error (HTTPStatusError c m) = m"

text \<open>Truthiness, as Python's \<open>bool(x)\<close> and \<open>if x:\<close> compute it.\<close>

fun truthy :: "pyval \<Rightarrow> bool" where
  "truthy PNone = False"
| "truthy (PBool b) = b"
| "truthy (PInt i) = (i \<noteq> 0)"
| "truthy (PFloat i k) = (i \<noteq> 0)"
| "truthy (PStr s) = (s \<noteq> [])"
| "truthy (PList xs) = (xs \<noteq> [])"
| "truthy (PDict kvs) = (kvs \<noteq> [])"

text \<open>
  \<open>d.get(key, default)\<close>: on the items of a dict (as \<open>kwargs.get\<close> is), and on
  any value, where it is an AttributeError when the value is not a dict.
\<close>

definition dict_get :: "(string \<times> pyval) list \<Rightarrow> string \<Rightarrow> pyval \<Rightarrow> pyval" where
  "dict_get kvs k dflt = (case map_of kvs k of None \<Rightarrow> dflt | Some v \<Rightarrow> v)"

declare dict_get_def [simp]

fun py_get :: "pyval \<Rightarrow> string \<Rightarrow> pyval \<Rightarrow> py_error + pyval" where
  "py_get (PDict kvs) k dflt = Inr (dict_get kvs k dflt)"
| "py_get _ k dflt = Inl (AttributeError ''object has no attribute get'')"

text \<open>
  \<open>key in d\<close> for a dict whose keys are strings: an unhashable key (a list, a dict)
  raises TypeError, any other non-string key is simply absent.
\<close>

fun py_in_keys :: "pyval \<Rightarrow> string list \<Rightarrow> py_error + bool" where
  "py_in_keys (PStr s) ks = Inr (s \<in> set ks)"
| "py_in_keys (PList xs) ks = Inl (TypeError ''unhashable type: list'')"
| "py_in_keys (PDict kvs) ks = Inl (TypeError ''unhashable type: dict'')"
| "py_in_keys _ ks = Inr False"

text \<open>\<open>d.items()\<close>.\<close>

fun py_items :: "pyval \<Rightarrow> py_error + (string \<times> pyval) list" where
  "py_items (PDict kvs) = Inr kvs"
| "py_items _ = Inl (AttributeError ''object has no attribute items'')"

fun starts_with :: "string \<Rightarrow> string \<Rightarrow> bool" where
  "starts_with [] s = True"
| "starts_with (p # ps) [] = False"
| "starts_with (p # ps) (c # cs) = (p = c \<and> starts_with ps cs)"

fun contains_str :: "string \<Rightarrow> string \<Rightarrow> bool" where
  "contains_str n [] = (n = [])"
| "contains_str n (c # cs) = (starts_with n (c # cs) \<or> contains_str n cs)"

text \<open>\<open>needle in x\<close> for a string needle, as \<open>"openai.com" in base_url\<close> needs it.\<close>

fun py_str_in :: "string \<Rightarrow> pyval \<Rightarrow> py_error + bool" where
  "py_str_in n (PStr s) = Inr (contains_str n s)"
| "py_str_in n (PList xs) = Inr (PStr n \<in> set xs)"
| "py_str_in n (PDict kvs) = Inr (n \<in> fst ` set kvs)"
| "py_str_in n _ = Inl (TypeError ''argument is not iterable'')"

text \<open>
  \<open>str.strip()\<close> and the regular expression class \<open>\s\<close> agree on what whitespace
  is. A \<open>char\<close> stands for the code point of the same number, so the strings of the
  model are the Python strings whose code points are below 256; among those the
  whitespace characters are 9 to 13, 28 to 32, 133 and 160.
\<close>

definition is_space :: "char \<Rightarrow> bool" where
  "is_space c = (of_char c \<in> {9, 10, 11, 12, 13, 28, 29, 30, 31, 32, 133, 160 :: nat})"

definition py_strip :: "string \<Rightarrow> string" where
  "py_strip s = rev (dropWhile is_space (rev (dropWhile is_space s)))"

text \<open>
  \<open>str(x)\<close>, as the f-strings of the error messages apply it. A string prints as
  itself; a float and a container print elided, since no message the flows build from
  them is ever inspected.
\<close>

fun show_nat :: "nat \<Rightarrow> string" where
  "show_nat n =
     (if n < 10 then [char_of (48 + n)]
      else show_nat (n div 10) @ [char_of (48 + n mod 10)])"

declare show_nat.simps [simp del]

fun py_str :: "pyval \<Rightarrow> string" where
  "py_str PNone = ''None''"
| "py_str (PBool b) = (if b then ''True'' else ''False'')"
| "py_str (PInt i) = (if i < 0 then ''-'' @ show_nat (nat (- i)) else show_nat (nat i))"
| "py_str (PFloat i k) = ''<float>''"
| "py_str (PStr s) = s"
| "py_str (PList xs) = ''[...]''"
| "py_str (PDict kvs) = ''{...}''"

section \<open>The manager and its environment\<close>

text \<open>
  A client handle records which SDK constructor built it and from which arguments
  (the api key; for the OpenAI-compatible client also the base URL).
\<close>

datatype client =
    AnthropicClient pyval
  | OpenAIClient pyval pyval
  | GeminiClient pyval

text \<open>Chat messages as the callers build them: \<open>{"role": ..., "content": ...}\<close>.\<close>

record message =
  msg_role :: string
  msg_content :: string

text \<open>
  The three request shapes. \<open>ChatRequest model messages max_tokens temperature\<close>;
  \<open>MessagesRequest model max_tokens temperature system messages\<close>, the system field
  absent when no system message was hoisted; \<open>GenerateRequest model contents\<close>, where
  the model is sent as \<open>models/{model}\<close> and each content is a role with one text part.
\<close>

datatype llm_request =
    ChatRequest pyval "message list" pyval pyval
  | MessagesRequest pyval pyval pyval "string option" "message list"
  | GenerateRequest pyval "(string \<times> string) list"

text \<open>
  The three response shapes. A chat completion has a list of choices, each with a
  message whose content may be \<open>None\<close>. A structured-turn reply has a list of content
  blocks (\<open>None\<close> when the reply has no \<open>content\<close> attribute); a block either has a
  \<open>text\<close> attribute or not, and then carries what \<open>str(block)\<close> prints. A
  generative-turn reply has candidates, each with the text of its content parts.
\<close>

datatype content_block = TextBlock string | OtherBlock string

datatype llm_response =
    ChatResponse "string option list"
  | MessagesResponse "content_block list option"
  | GenerateResponse "string list list"

text \<open>
  An outbound HTTP call either fails in transport (\<open>httpx.RequestError\<close>,
  \<open>requests.exceptions.RequestException\<close>) or yields a response: status code, body
  text, and the parsed body when the body is JSON.
\<close>

datatype http_outcome =
    TransportError string
  | HttpResponse nat string "pyval option"

text \<open>
  Everything outside the process is a field of the environment: whether the optional
  SDKs were importable, whether an SDK constructor accepts its arguments, the answer of
  the backend's configuration endpoint, the local settings object, the answers of the
  LLM providers and of the tool services, the file system, and the prompt builders
  (pure string formatting of the parameters, whose long literals are not reproduced).
\<close>

record env =
  anthropic_available :: bool
  gemini_available :: bool
  ctor_ok :: "client \<Rightarrow> bool"
  remote_get :: http_outcome
  settings_config :: pyval
  settings_default_provider :: pyval
  backend_put_ok :: "string \<Rightarrow> (string \<times> pyval) list \<Rightarrow> bool"
  llm_create :: "client \<Rightarrow> llm_request \<Rightarrow> py_error + llm_response"
  build_prompt_by_input_type :: "pyval \<Rightarrow> pyval \<Rightarrow> pyval \<Rightarrow> pyval \<Rightarrow> pyval \<Rightarrow> pyval \<Rightarrow> string"
  build_chart_data_prompt :: "pyval \<Rightarrow> pyval \<Rightarrow> pyval \<Rightarrow> string"
  upload_exists :: "string \<Rightarrow> bool"
  ucas_resources :: "(string \<times> string) list"
  archive_error :: "py_error option"
  post_form :: "string \<Rightarrow> (string \<times> pyval) list \<Rightarrow> http_outcome"
  post_json :: "string \<Rightarrow> pyval \<Rightarrow> http_outcome"

text \<open>
  A task record is the dict \<open>{"status", "data", "result", "error"}\<close> that
  \<open>process_task\<close> stores in \<open>self.tasks\<close>. The status is the string the source
  writes (\<open>running\<close>, \<open>completed\<close>, \<open>failed\<close>, \<open>cancelled\<close>); \<open>result\<close>
  is \<open>PNone\<close> and \<open>error\<close> is \<open>None\<close> while they hold Python's \<open>None\<close>.
\<close>

record task_record =
  status :: string
  data :: pyval
  result :: pyval
  error :: "string option"

text \<open>
  The fields of \<open>AgentManager\<close>. \<open>llm_clients\<close> is iterated, so it keeps its
  insertion order. \<open>backend_updates\<close> is not a field of the class: it is what the
  external task store has received from \<open>_update_backend_task\<close>.
\<close>

record agent =
  tasks :: "string \<rightharpoonup> task_record"
  running :: bool
  mcp_clients :: "string \<rightharpoonup> string"
  llm_clients :: "(string \<times> client) list"
  llm_config :: pyval
  current_provider :: "string option"
  llm_status :: pyval
  backend_updates :: "(string \<times> (string \<times> pyval) list) list"

text \<open>The manager as \<open>__init__\<close> leaves it.\<close>

definition init_agent :: agent where
  "init_agent =
     \<lparr>tasks = Map.empty, running = False, mcp_clients = Map.empty, llm_clients = [],
      llm_config = PNone, current_provider = None,
      llm_status = PDict [(''configured'', PBool False), (''current_provider'', PNone),
                          (''current_model'', PNone), (''provider_configs'', PDict []),
                          (''last_updated'', PNone)],
      backend_updates = []\<rparr>"

section \<open>Loading the provider configuration\<close>

text \<open>
  The four \<open>_init_*_client\<close> methods. Each returns whether it registered a client;
  every exception inside (a constructor that refuses its arguments, the TypeError of
  \<open>"openai.com" in base_url\<close> when the base URL is \<open>None\<close>) is caught and gives
  \<open>False\<close> with the registry as it was. A registration \<open>self.llm_clients[k] = c\<close>
  keeps the position of a key that is already there.
\<close>

definition init_anthropic_client :: "env \<Rightarrow> agent \<Rightarrow> pyval \<Rightarrow> agent \<times> bool" where
  "init_anthropic_client e m config =
     (if \<not> anthropic_available e then (m, False)
      else case py_get config ''api_key'' PNone of
             Inl _ \<Rightarrow> (m, False)
           | Inr api_key \<Rightarrow>
               if \<not> truthy api_key then (m, False)
               else if \<not> ctor_ok e (AnthropicClient api_key) then (m, False)
               else (m\<lparr>llm_clients :=
                        AList.update ''anthropic'' (AnthropicClient api_key) (llm_clients m)\<rparr>,
                     True))"

definition init_openai_client :: "env \<Rightarrow> agent \<Rightarrow> pyval \<Rightarrow> agent \<times> bool" where
  "init_openai_client e m config =
     (case py_get config ''api_key'' PNone of
        Inl _ \<Rightarrow> (m, False)
      | Inr api_key \<Rightarrow>
         (case py_get config ''base_url'' (PStr ''https://api.openai.com/v1'') of
            Inl _ \<Rightarrow> (m, False)
          | Inr base_url \<Rightarrow>
              if \<not> truthy api_key then (m, False)
              else if \<not> ctor_ok e (OpenAIClient api_key base_url) then (m, False)
              else
                (let c = OpenAIClient api_key base_url in
                 case py_str_in ''openai.com'' base_url of
                   Inl _ \<Rightarrow> (m, False)
                 | Inr True \<Rightarrow>
                     (m\<lparr>llm_clients :=
                          AList.update ''gpt'' c (AList.update ''openai'' c (llm_clients m))\<rparr>,
                      True)
                 | Inr False \<Rightarrow>
                    (case py_str_in ''deepseek.com'' base_url of
                       Inl _ \<Rightarrow> (m, False)
                     | Inr True \<Rightarrow>
                         (m\<lparr>llm_clients := AList.update ''deepseek'' c (llm_clients m)\<rparr>, True)
                     | Inr False \<Rightarrow>
                        (case py_get config ''provider'' (PStr ''openai'') of
                           Inl _ \<Rightarrow> (m, False)
                         | Inr (PStr provider_name) \<Rightarrow>
                             (m\<lparr>llm_clients := AList.update provider_name c (llm_clients m)\<rparr>,
                              True)
                         | Inr (PList _) \<Rightarrow> (m, False)
                         | Inr (PDict _) \<Rightarrow> (m, False)
                         | Inr _ \<Rightarrow> (m, True))))))"

text \<open>
  In the last case above the \<open>provider\<close> field is a hashable value that is not a
  string: the source registers the client under that key, which no lookup of this class
  can hit (every lookup uses a provider name, a key of a JSON object), so the registry of
  string keys is unchanged; a list or a dict is unhashable and raises inside the
  \<open>try\<close>.
\<close>

definition init_deepseek_client :: "env \<Rightarrow> agent \<Rightarrow> pyval \<Rightarrow> agent \<times> bool" where
  "init_deepseek_client e m config =
     (case py_get config ''api_key'' PNone of
        Inl _ \<Rightarrow> (m, False)
      | Inr api_key \<Rightarrow>
         (case py_get config ''base_url'' (PStr ''https://api.deepseek.com'') of
            Inl _ \<Rightarrow> (m, False)
          | Inr base_url \<Rightarrow>
              if \<not> truthy api_key then (m, False)
              else if \<not> ctor_ok e (OpenAIClient api_key base_url) then (m, False)
              else (m\<lparr>llm_clients :=
                        AList.update ''deepseek'' (OpenAIClient api_key base_url) (llm_clients m)\<rparr>,
                    True)))"

definition init_gemini_client :: "env \<Rightarrow> agent \<Rightarrow> pyval \<Rightarrow> agent \<times> bool" where
  "init_gemini_client e m config =
     (if \<not> gemini_available e then (m, False)
      else case py_get config ''api_key'' PNone of
             Inl _ \<Rightarrow> (m, False)
           | Inr api_key \<Rightarrow>
               if \<not> truthy api_key then (m, False)
               else if \<not> ctor_ok e (GeminiClient api_key) then (m, False)
               else (m\<lparr>llm_clients :=
                        AList.update ''gemini'' (GeminiClient api_key) (llm_clients m)\<rparr>,
                     True))"

text \<open>
  \<open>self.llm_status['providers'][provider_name] = entry\<close>. The status dict was assigned
  just before with an empty \<open>providers\<close> dict, so the other cases do not arise.
\<close>

definition set_status_provider :: "pyval \<Rightarrow> string \<Rightarrow> pyval \<Rightarrow> pyval" where
  "set_status_provider st name entry =
     (case st of
        PDict kvs \<Rightarrow>
          (case map_of kvs ''providers'' of
             Some (PDict ps) \<Rightarrow>
               PDict (AList.update ''providers'' (PDict (AList.update name entry ps)) kvs)
           | _ \<Rightarrow> st)
      | _ \<Rightarrow> st)"

text \<open>
  The body of the loop \<open>for provider_name, provider_config in providers.items()\<close>,
  the same statements in \<open>_load_llm_config\<close> and \<open>_fallback_to_local_config\<close>. It
  raises (left) when the provider's configuration is not a dict.
\<close>

definition init_provider :: "env \<Rightarrow> agent \<Rightarrow> string \<Rightarrow> pyval \<Rightarrow> py_error + agent" where
  "init_provider e m provider_name provider_config =
     (case py_get provider_config ''api_key'' (PStr []) of
        Inl err \<Rightarrow> Inl err
      | Inr api_key \<Rightarrow>
         (case py_get provider_config ''model'' (PStr []) of
            Inl err \<Rightarrow> Inl err
          | Inr model \<Rightarrow>
             (let m1 = m\<lparr>llm_status :=
                          set_status_provider (llm_status m) provider_name
                            (PDict [(''configured'', PBool (truthy api_key)),
                                    (''model'', model),
                                    (''api_key_set'', PBool (truthy api_key))])\<rparr>
              in if provider_name = ''anthropic'' \<and> truthy api_key
                 then Inr (fst (init_anthropic_client e m1 provider_config))
                 else if provider_name \<in> {''gpt'', ''openai''} \<and> truthy api_key
                 then Inr (fst (init_openai_client e m1 provider_config))
                 else if provider_name = ''gemini'' \<and> truthy api_key
                 then Inr (fst (init_gemini_client e m1 provider_config))
                 else if provider_name = ''deepseek'' \<and> truthy api_key
                 then Inr (fst (init_deepseek_client e m1 provider_config))
                 else Inr m1)))"

text \<open>The loop: the state reached, and the exception if an iteration raised.\<close>

fun init_providers :: "env \<Rightarrow> agent \<Rightarrow> (string \<times> pyval) list \<Rightarrow> agent \<times> py_error option" where
  "init_providers e m [] = (m, None)"
| "init_providers e m ((n, c) # ps) =
     (case init_provider e m n c of
        Inl err \<Rightarrow> (m, Some err)
      | Inr m' \<Rightarrow> init_providers e m' ps)"

text \<open>
  The selection of the active provider, the same statements in both loaders: the
  declared default when it is a key of the loaded providers and of the client registry;
  otherwise the first key of the client registry, in its iteration order, that is a key
  of the loaded providers; when there is none, the fields are left as they were.
\<close>

definition select_provider ::
  "agent \<Rightarrow> pyval \<Rightarrow> (string \<times> pyval) list \<Rightarrow> py_error + agent" where
  "select_provider m default_provider providers =
     (case py_in_keys default_provider (map fst providers) of
        Inl err \<Rightarrow> Inl err
      | Inr in_providers \<Rightarrow>
         (case (if in_providers then py_in_keys default_provider (map fst (llm_clients m))
                else Inr False) of
            Inl err \<Rightarrow> Inl err
          | Inr True \<Rightarrow>
             (case default_provider of
                PStr d \<Rightarrow> Inr (m\<lparr>current_provider := Some d,
                                llm_config := (case map_of providers d of Some c \<Rightarrow> c | None \<Rightarrow> PNone)\<rparr>)
              | _ \<Rightarrow> Inr m)
          | Inr False \<Rightarrow>
             (case find (\<lambda>provider_name. provider_name \<in> set (map fst providers))
                        (map fst (llm_clients m)) of
                Some provider_name \<Rightarrow>
                  Inr (m\<lparr>current_provider := Some provider_name,
                         llm_config := (case map_of providers provider_name of
                                          Some c \<Rightarrow> c | None \<Rightarrow> PNone)\<rparr>)
              | None \<Rightarrow> Inr m)))"

text \<open>
  What both loaders do once they have the default provider and the providers value:
  assign the status dict, run the loop, select. The result is the state reached and the
  exception, if one was raised on the way.
\<close>

definition configure_from ::
  "env \<Rightarrow> agent \<Rightarrow> string \<Rightarrow> pyval \<Rightarrow> py_error + pyval \<Rightarrow> agent \<times> py_error option" where
  "configure_from e m source default_provider providers_value =
     (let m1 = m\<lparr>llm_status := PDict [(''source'', PStr source),
                                      (''default_provider'', default_provider),
                                      (''providers'', PDict [])]\<rparr>
      in case providers_value of
           Inl err \<Rightarrow> (m1, Some err)
         | Inr providers \<Rightarrow>
            (case py_items providers of
               Inl err \<Rightarrow> (m1, Some err)
             | Inr items \<Rightarrow>
                (case init_providers e m1 items of
                   (m2, Some err) \<Rightarrow> (m2, Some err)
                 | (m2, None) \<Rightarrow>
                    (case select_provider m2 default_provider items of
                       Inl err \<Rightarrow> (m2, Some err)
                     | Inr m3 \<Rightarrow> (m3, None)))))"

text \<open>
  \<open>_fallback_to_local_config\<close>: \<open>True\<close>, or \<open>False\<close> when anything raised; its
  own \<open>except Exception\<close> lets nothing out.
\<close>

definition fallback_to_local_config :: "env \<Rightarrow> agent \<Rightarrow> agent \<times> (py_error + pyval)" where
  "fallback_to_local_config e m =
     (case configure_from e m ''local'' (settings_default_provider e)
             (py_get (settings_config e) ''llm_providers'' (PDict [])) of
        (m', None) \<Rightarrow> (m', Inr (PBool True))
      | (m', Some err) \<Rightarrow> (m', Inr (PBool False)))"

text \<open>
  \<open>_load_llm_config\<close>. A transport exception of \<open>requests.get\<close> and any exception
  raised while the 200 answer is processed go to the local fallback, from the state
  reached. An answer whose status code is not 200 matches no branch of the \<open>try\<close>
  block and raises nothing: the method ends and returns \<open>None\<close>.
\<close>

definition load_llm_config :: "env \<Rightarrow> agent \<Rightarrow> agent \<times> (py_error + pyval)" where
  "load_llm_config e m =
     (case remote_get e of
        TransportError msg \<Rightarrow> fallback_to_local_config e m
      | HttpResponse code body js \<Rightarrow>
          if code = 200 then
            (case js of
               None \<Rightarrow> fallback_to_local_config e m
             | Some config_data \<Rightarrow>
                (case py_get config_data ''default_llm_provider'' (PStr ''anthropic'') of
                   Inl err \<Rightarrow> fallback_to_local_config e m
                 | Inr d0 \<Rightarrow>
                    (case py_get config_data ''current_provider'' d0 of
                       Inl err \<Rightarrow> fallback_to_local_config e m
                     | Inr default_provider \<Rightarrow>
                        (case configure_from e m ''backend'' default_provider
                                (case py_get config_data ''llm_providers'' (PDict []) of
                                   Inl err \<Rightarrow> Inl err
                                 | Inr p0 \<Rightarrow> py_get config_data ''provider_configs'' p0) of
                           (m', None) \<Rightarrow> (m', Inr (PBool True))
                         | (m', Some err) \<Rightarrow> fallback_to_local_config e m'))))
          else (m, Inr PNone))"

section \<open>The unified LLM invocation\<close>

text \<open>
  \<open>_call_openai_compatible\<close>. \<open>self.llm_config.get\<close> raises when the configuration
  is not a dict; the client must be the OpenAI-compatible one to have
  \<open>chat.completions\<close>; the content is read from the first choice and stripped.
\<close>


definition call_openai_compatible ::
  "env \<Rightarrow> agent \<Rightarrow> client \<Rightarrow> message list \<Rightarrow> (string \<times> pyval) list \<Rightarrow> py_error + string" where
  "call_openai_compatible e m cl messages kwargs =
     (case py_get (llm_config m) ''model'' (PStr ''gpt-4'') of
        Inl err \<Rightarrow> Inl err
      | Inr model0 \<Rightarrow>
     (case py_get (llm_config m) ''max_tokens'' (PInt 4000) of
        Inl err \<Rightarrow> Inl err
      | Inr mt0 \<Rightarrow>
     (case py_get (llm_config m) ''temperature'' (PFloat 7 1) of
        Inl err \<Rightarrow> Inl err
      | Inr t0 \<Rightarrow>
     (case (if current_provider m = Some ''azure''
            then py_get (llm_config m) ''deployment_name'' model0 else Inr model0) of
        Inl err \<Rightarrow> Inl err
      | Inr model \<Rightarrow>
     (case cl of
        OpenAIClient k u \<Rightarrow>
          (case llm_create e cl (ChatRequest model messages
                  (dict_get kwargs ''max_tokens'' mt0) (dict_get kwargs ''temperature'' t0)) of
             Inl err \<Rightarrow> Inl err
           | Inr (ChatResponse []) \<Rightarrow> Inl (IndexError ''list index out of range'')
           | Inr (ChatResponse (None # cs)) \<Rightarrow>
               Inl (AttributeError ''NoneType object has no attribute strip'')
           | Inr (ChatResponse (Some txt # cs)) \<Rightarrow> Inr (py_strip txt)
           | Inr _ \<Rightarrow> Inl (AttributeError ''object has no attribute choices''))
      | _ \<Rightarrow> Inl (AttributeError ''object has no attribute chat''))))))"

text \<open>
  \<open>_call_anthropic\<close>. The last system message is hoisted into the system field, the
  other messages are passed on. The reply's first content block gives the result: its
  \<open>text\<close> when it has one, else \<open>str\<close> of the block; a reply with no content
  attribute or an empty content list raises. The \<open>except\<close> clause logs and re-raises.
\<close>

fun split_system :: "message list \<Rightarrow> string \<Rightarrow> message list \<Rightarrow> string \<times> message list" where
  "split_system [] system_message user_messages = (system_message, user_messages)"
| "split_system (msg # msgs) system_message user_messages =
     (if msg_role msg = ''system''
      then split_system msgs (msg_content msg) user_messages
      else split_system msgs system_message
             (user_messages @ [\<lparr>msg_role = msg_role msg, msg_content = msg_content msg\<rparr>]))"

definition call_anthropic ::
  "env \<Rightarrow> agent \<Rightarrow> client \<Rightarrow> message list \<Rightarrow> (string \<times> pyval) list \<Rightarrow> py_error + string" where
  "call_anthropic e m cl messages kwargs =
     (case py_get (llm_config m) ''model'' (PStr ''claude-3-sonnet-20240229'') of
        Inl err \<Rightarrow> Inl err
      | Inr model \<Rightarrow>
     (case py_get (llm_config m) ''max_tokens'' (PInt 4000) of
        Inl err \<Rightarrow> Inl err
      | Inr mt0 \<Rightarrow>
     (case py_get (llm_config m) ''temperature'' (PFloat 7 1) of
        Inl err \<Rightarrow> Inl err
      | Inr t0 \<Rightarrow>
     (case split_system messages [] [] of
        (system_message, user_messages) \<Rightarrow>
     (case cl of
        AnthropicClient k \<Rightarrow>
          (case llm_create e cl (MessagesRequest model
                  (dict_get kwargs ''max_tokens'' mt0) (dict_get kwargs ''temperature'' t0)
                  (if system_message \<noteq> [] then Some system_message else None) user_messages) of
             Inl err \<Rightarrow> Inl err
           | Inr (MessagesResponse (Some (TextBlock txt # bs))) \<Rightarrow> Inr txt
           | Inr (MessagesResponse (Some (OtherBlock repr # bs))) \<Rightarrow> Inr repr
           | Inr (MessagesResponse (Some [])) \<Rightarrow>
               Inl (PyException ''Anthropic API response format abnormal'')
           | Inr (MessagesResponse None) \<Rightarrow>
               Inl (PyException ''Anthropic API response format abnormal'')
           | Inr _ \<Rightarrow> Inl (PyException ''Anthropic API response format abnormal''))
      | _ \<Rightarrow> Inl (AttributeError ''object has no attribute messages''))))))"

text \<open>
  \<open>_call_gemini\<close>. A system message becomes a user turn prefixed \<open>System: \<close>, an
  assistant message a \<open>model\<close> turn, any other role is dropped. The result is the text
  of the first part of the first candidate.
\<close>

fun gemini_contents :: "message list \<Rightarrow> (string \<times> string) list" where
  "gemini_contents [] = []"
| "gemini_contents (msg # msgs) =
     (if msg_role msg = ''system''
      then (''user'', ''System: '' @ msg_content msg) # gemini_contents msgs
      else if msg_role msg = ''user''
      then (''user'', msg_content msg) # gemini_contents msgs
      else if msg_role msg = ''assistant''
      then (''model'', msg_content msg) # gemini_contents msgs
      else gemini_contents msgs)"

definition call_gemini ::
  "env \<Rightarrow> agent \<Rightarrow> client \<Rightarrow> message list \<Rightarrow> (string \<times> pyval) list \<Rightarrow> py_error + string" where
  "call_gemini e m cl messages kwargs =
     (case py_get (llm_config m) ''model'' (PStr ''gemini-1.5-pro'') of
        Inl err \<Rightarrow> Inl err
      | Inr model \<Rightarrow>
     (case cl of
        GeminiClient k \<Rightarrow>
          (case llm_create e cl (GenerateRequest model (gemini_contents messages)) of
             Inl err \<Rightarrow> Inl err
           | Inr (GenerateResponse []) \<Rightarrow> Inl (IndexError ''list index out of range'')
           | Inr (GenerateResponse ([] # cands)) \<Rightarrow> Inl (IndexError ''list index out of range'')
           | Inr (GenerateResponse ((txt # parts) # cands)) \<Rightarrow> Inr txt
           | Inr _ \<Rightarrow> Inl (AttributeError ''object has no attribute candidates''))
      | _ \<Rightarrow> Inl (AttributeError ''object has no attribute models'')))"

text \<open>
  \<open>_call_llm\<close>: the guard on the active provider, then the dispatch on its name. The
  \<open>except\<close> clause logs and re-raises the same exception.
\<close>

definition llm_not_configured :: py_error where
  "llm_not_configured = PyException ''LLM service not configured or failed to initialise''"

definition call_llm ::
  "env \<Rightarrow> agent \<Rightarrow> message list \<Rightarrow> (string \<times> pyval) list \<Rightarrow> py_error + string" where
  "call_llm e m messages kwargs =
     (case current_provider m of
        None \<Rightarrow> Inl llm_not_configured
      | Some provider \<Rightarrow>
          if provider = [] then Inl llm_not_configured
          else (case map_of (llm_clients m) provider of
                  None \<Rightarrow> Inl llm_not_configured
                | Some cl \<Rightarrow>
                    if provider \<in> {''openai'', ''gpt'', ''azure'', ''ollama'', ''deepseek''}
                    then call_openai_compatible e m cl messages kwargs
                    else if provider = ''anthropic''
                    then call_anthropic e m cl messages kwargs
                    else if provider = ''gemini''
                    then call_gemini e m cl messages kwargs
                    else Inl (PyException (''unsupported LLM provider: '' @ provider))))"

section \<open>Extraction of the payload from an LLM answer\<close>

text \<open>
  The three regular expressions of \<open>_extract_json_data\<close> and \<open>_extract_latex_code\<close>
  are run as Python's backtracking matcher runs them under \<open>re.search\<close> with
  \<open>re.DOTALL\<close>: the leftmost start position that admits a match wins, a greedy
  quantifier tries its longest extent first and gives characters back, a lazy one tries
  its shortest extent first.

  \<open>ws_then_fence s\<close>: \<open>\s*```\<close> matches at the start of \<open>s\<close> (a backquote is not
  whitespace, so giving whitespace back never helps).
\<close>

definition ws_then_fence :: "string \<Rightarrow> bool" where
  "ws_then_fence s = starts_with ''```'' (dropWhile is_space s)"

text \<open>\<open>(.*?)\s*```\<close> at the start of \<open>s\<close>: the shortest group after which the rest matches.\<close>

fun lazy_group :: "string \<Rightarrow> string option" where
  "lazy_group [] = (if ws_then_fence [] then Some [] else None)"
| "lazy_group (c # cs) =
     (if ws_then_fence (c # cs) then Some []
      else map_option ((#) c) (lazy_group cs))"

text \<open>\<open>\s*(.*?)\s*```\<close> at the start of \<open>s\<close>: the first \<open>\s*\<close> is greedy and backtracks.\<close>

fun ws_group :: "string \<Rightarrow> string option" where
  "ws_group [] = lazy_group []"
| "ws_group (c # cs) =
     (if is_space c
      then (case ws_group cs of Some g \<Rightarrow> Some g | None \<Rightarrow> lazy_group (c # cs))
      else lazy_group (c # cs))"

text \<open>
  \<open>re.search(r'```TAG\s*(.*?)\s*```', s, re.DOTALL)\<close>: group 1 of the leftmost match.
  The tag is \<open>json\<close>, \<open>latex\<close>, or empty for the untagged pattern.
\<close>

fun search_fenced :: "string \<Rightarrow> string \<Rightarrow> string option" where
  "search_fenced tag [] = None"
| "search_fenced tag (c # cs) =
     (if starts_with (''```'' @ tag) (c # cs)
      then (case ws_group (drop (3 + length tag) (c # cs)) of
              Some g \<Rightarrow> Some g
            | None \<Rightarrow> search_fenced tag cs)
      else search_fenced tag cs)"

text \<open>\<open>.*\}\<close> at the start of \<open>s\<close>, greedy: the longest prefix of \<open>s\<close> that ends in a brace.\<close>

fun greedy_to_rbrace :: "string \<Rightarrow> string option" where
  "greedy_to_rbrace [] = None"
| "greedy_to_rbrace (c # cs) =
     (case greedy_to_rbrace cs of
        Some g \<Rightarrow> Some (c # g)
      | None \<Rightarrow> if c = CHR ''}'' then Some [c] else None)"

text \<open>\<open>re.search(r'\{.*\}', s, re.DOTALL)\<close>: group 0 of the leftmost match.\<close>

fun search_braces :: "string \<Rightarrow> string option" where
  "search_braces [] = None"
| "search_braces (c # cs) =
     (if c = CHR ''{''
      then (case greedy_to_rbrace cs of
              Some g \<Rightarrow> Some (c # g)
            | None \<Rightarrow> search_braces cs)
      else search_braces cs)"

text \<open>\<open>re.search(r'\\documentclass.*', s, re.DOTALL)\<close>: group 0 of the leftmost match.\<close>

definition documentclass :: string where
  "documentclass = CHR 0x5C # ''documentclass''"

fun search_documentclass :: "string \<Rightarrow> string option" where
  "search_documentclass [] = None"
| "search_documentclass (c # cs) =
     (if starts_with documentclass (c # cs) then Some (c # cs)
      else search_documentclass cs)"

definition extract_json_data :: "string \<Rightarrow> string" where
  "extract_json_data response =
     (case search_fenced ''json'' response of
        Some g \<Rightarrow> py_strip g
      | None \<Rightarrow>
         (case search_fenced [] response of
            Some g \<Rightarrow> py_strip g
          | None \<Rightarrow>
             (case search_braces response of
                Some g \<Rightarrow> py_strip g
              | None \<Rightarrow> py_strip response)))"

definition extract_latex_code :: "string \<Rightarrow> string" where
  "extract_latex_code response =
     (case search_fenced ''latex'' response of
        Some g \<Rightarrow> py_strip g
      | None \<Rightarrow>
         (case search_fenced [] response of
            Some g \<Rightarrow> py_strip g
          | None \<Rightarrow>
             (case search_documentclass response of
                Some g \<Rightarrow> py_strip g
              | None \<Rightarrow> py_strip response)))"



section \<open>Tool dispatch and the document flows\<close>

text \<open>
  \<open>try: body except Exception as e: raise Exception(f"PREFIX{e}")\<close>: the wrapper the
  flows put around their bodies.
\<close>

definition reraise_as :: "string \<Rightarrow> py_error + 'a \<Rightarrow> py_error + 'a" where
  "reraise_as pre r =
     (case r of Inl err \<Rightarrow> Inl (PyException (pre @ str_of_error err)) | Inr v \<Rightarrow> Inr v)"

text \<open>
  \<open>response.raise_for_status()\<close> followed by \<open>response.json()\<close>: a transport
  failure is \<open>httpx.RequestError\<close>, a status outside 2xx is \<open>httpx.HTTPStatusError\<close>,
  a body that is not JSON is a ValueError.
\<close>

definition checked_json :: "http_outcome \<Rightarrow> py_error + pyval" where
  "checked_json r =
     (case r of
        TransportError msg \<Rightarrow> Inl (RequestError msg)
      | HttpResponse code body js \<Rightarrow>
          if 200 \<le> code \<and> code < 300
          then (case js of Some v \<Rightarrow> Inr v | None \<Rightarrow> Inl (ValueError ''response body is not JSON''))
          else Inl (HTTPStatusError code body))"

text \<open>
  The three \<open>except\<close> clauses after a call of the PPT service: transport error, status
  error, anything else (with the prefix the call site uses for it).
\<close>

definition ppt_service_errors :: "string \<Rightarrow> py_error + 'a \<Rightarrow> py_error + 'a" where
  "ppt_service_errors pre r =
     (case r of
        Inl (RequestError msg) \<Rightarrow>
          Inl (PyException (''cannot connect to the PPT generator service: '' @ msg))
      | Inl (HTTPStatusError code body) \<Rightarrow>
          Inl (PyException (''PPT generator service returned error '' @ show_nat code @ '': '' @ body))
      | Inl err \<Rightarrow> Inl (PyException (pre @ str_of_error err))
      | Inr v \<Rightarrow> Inr v)"

text \<open>
  \<open>_call_ppt_service\<close>. With the style variant and a non-empty resource map the
  markup and the resources are zipped (the file system may refuse) and posted as a
  project; otherwise the markup is posted as JSON.
\<close>

definition call_ppt_service :: "env \<Rightarrow> agent \<Rightarrow> string \<Rightarrow> pyval \<Rightarrow> pyval \<Rightarrow> py_error + pyval" where
  "call_ppt_service e m latex_content title use_ucas_style =
     (case mcp_clients m ''ppt_generator'' of
        None \<Rightarrow> Inl (PyException ''PPT generator service unavailable'')
      | Some service_url \<Rightarrow>
          if service_url = [] then Inl (PyException ''PPT generator service unavailable'')
          else ppt_service_errors ''calling the PPT service failed: ''
            (if truthy use_ucas_style \<and> ucas_resources e \<noteq> []
             then (case archive_error e of
                     Some err \<Rightarrow> Inl err
                   | None \<Rightarrow>
                       checked_json (post_form e (service_url @ ''/generate_beamer_from_project'')
                         [(''archive_file'', PStr ''ucas_resources.zip''),
                          (''beamer_content'', PStr latex_content),
                          (''title'', title),
                          (''main_tex_filename'', PStr ''main.tex'')]))
             else checked_json (post_json e (service_url @ ''/generate_ppt'')
                    (PDict [(''latex_content'', PStr latex_content), (''title'', title)]))))"

text \<open>
  \<open>_call_mcp_service\<close>: the direct proxy. The tool type is one of the strings
  \<open>_process_with_llm\<close> dispatches on.
\<close>

definition service_mapping :: "string \<rightharpoonup> string" where
  "service_mapping =
     [''ppt'' \<mapsto> ''ppt_generator'', ''ppt_generator'' \<mapsto> ''ppt_generator'',
      ''chart'' \<mapsto> ''chart_generator'', ''chart_generator'' \<mapsto> ''chart_generator'',
      ''scheduler'' \<mapsto> ''schedule_reminder'',
      ''api-docs'' \<mapsto> ''api_doc_generator'', ''api_doc_generator'' \<mapsto> ''api_doc_generator'']"

definition unsupported_tool_type :: "string \<Rightarrow> py_error" where
  "unsupported_tool_type t = ValueError (''unsupported tool type: '' @ t)"

definition call_mcp_service :: "env \<Rightarrow> agent \<Rightarrow> string \<Rightarrow> pyval \<Rightarrow> py_error + pyval" where
  "call_mcp_service e m tool_type parameters =
     (case service_mapping tool_type of
        None \<Rightarrow> Inl (unsupported_tool_type tool_type)
      | Some service_name \<Rightarrow>
          if service_name = [] then Inl (unsupported_tool_type tool_type)
          else (case mcp_clients m service_name of
                  None \<Rightarrow> Inl (unsupported_tool_type tool_type)
                | Some service_url \<Rightarrow>
                   (case (if tool_type \<in> {''chart'', ''chart_generator''}
                          then checked_json (post_json e (service_url @ ''/generate_chart'') parameters)
                          else if tool_type = ''scheduler''
                          then checked_json (post_json e (service_url @ ''/create_schedule'') parameters)
                          else if tool_type \<in> {''api-docs'', ''api_doc_generator''}
                          then checked_json (post_json e (service_url @ ''/generate_docs'') parameters)
                          else Inl (ValueError (''unknown tool type: '' @ tool_type))) of
                      Inl (RequestError msg) \<Rightarrow>
                        Inl (PyException (''cannot connect to the '' @ service_name @ '' service: '' @ msg))
                    | Inl (HTTPStatusError code body) \<Rightarrow>
                        Inl (PyException (service_name @ '' service returned error: '' @ show_nat code))
                    | Inl err \<Rightarrow>
                        Inl (PyException (''calling the '' @ service_name @ '' service failed: ''
                                          @ str_of_error err))
                    | Inr v \<Rightarrow> Inr v)))"

text \<open>
  The guard \<open>not self.current_provider or self.current_provider not in self.llm_clients\<close>
  and the statement \<open>model = self.llm_config.get("model", "gpt-4") if self.llm_config
  else "gpt-4"\<close> (its value is not used; it raises when the configuration is a truthy
  value that is not a dict), which every authoring flow runs before it calls the LLM.
\<close>

definition llm_guard :: "agent \<Rightarrow> py_error + unit" where
  "llm_guard m =
     (case current_provider m of
        None \<Rightarrow> Inl llm_not_configured
      | Some p \<Rightarrow>
          if p = [] \<or> p \<notin> fst ` set (llm_clients m) then Inl llm_not_configured
          else if truthy (llm_config m)
          then (case py_get (llm_config m) ''model'' (PStr ''gpt-4'') of
                  Inl err \<Rightarrow> Inl err | Inr _ \<Rightarrow> Inr ())
          else Inr ())"

text \<open>\<open>x.strip()\<close> on a value: an AttributeError unless it is a string.\<close>

fun py_strip_val :: "pyval \<Rightarrow> py_error + string" where
  "py_strip_val (PStr s) = Inr (py_strip s)"
| "py_strip_val _ = Inl (AttributeError ''object has no attribute strip'')"

text \<open>The system messages of the two document flows and of the chart flow.\<close>

definition ppt_system_message :: message where
  "ppt_system_message = \<lparr>msg_role = ''system'',
     msg_content = ''You are a LaTeX Beamer expert. Do not invent image file names.''\<rparr>"

definition project_system_message :: message where
  "project_system_message = \<lparr>msg_role = ''system'',
     msg_content = ''You convert a LaTeX paper into Beamer. Use only existing includegraphics.''\<rparr>"

definition chart_system_message :: message where
  "chart_system_message = \<lparr>msg_role = ''system'',
     msg_content = ''You are a data analyst. Produce Chart.js JSON data.''\<rparr>"

text \<open>
  \<open>_generate_chart_data_with_llm\<close>.
\<close>

definition generate_chart_data_with_llm :: "env \<Rightarrow> agent \<Rightarrow> pyval \<Rightarrow> py_error + pyval" where
  "generate_chart_data_with_llm e m parameters =
     (case py_get parameters ''user_requirement'' (PStr []) of
        Inl err \<Rightarrow> Inl err
      | Inr user_requirement \<Rightarrow>
     (case py_get parameters ''chart_type'' (PStr ''bar'') of
        Inl err \<Rightarrow> Inl err
      | Inr chart_type \<Rightarrow>
     (case py_get parameters ''title'' (PStr []) of
        Inl err \<Rightarrow> Inl err
      | Inr title \<Rightarrow>
          if \<not> truthy user_requirement
          then Inl (PyException ''the user requirement must not be empty'')
          else reraise_as ''generating chart data failed: ''
            (case llm_guard m of
               Inl err \<Rightarrow> Inl err
             | Inr _ \<Rightarrow>
                (case call_llm e m
                        [chart_system_message,
                         \<lparr>msg_role = ''user'',
                          msg_content = build_chart_data_prompt e user_requirement chart_type title\<rparr>] [] of
                   Inl err \<Rightarrow> Inl err
                 | Inr response \<Rightarrow>
                     Inr (PDict [(''status'', PStr ''success''),
                                 (''generated_data'', PStr (extract_json_data (py_strip response))),
                                 (''chart_type'', chart_type),
                                 (''title'', title),
                                 (''user_requirement'', user_requirement)]))))))"

text \<open>
  \<open>_handle_latex_project\<close>, step by step. The first step posts the uploaded archive
  to the extraction endpoint and reads the primary source text.
\<close>

definition extract_tex_content ::
  "env \<Rightarrow> string \<Rightarrow> string \<Rightarrow> pyval \<Rightarrow> py_error + string" where
  "extract_tex_content e service_url uploaded_file_path main_tex_filename =
     (case checked_json (post_form e (service_url @ ''/extract_tex_content'')
              [(''archive_file'', PStr uploaded_file_path),
               (''main_tex_filename'', main_tex_filename)]) of
        Inl (RequestError msg) \<Rightarrow>
          Inl (PyException (''cannot connect to the PPT generator service: '' @ msg))
      | Inl (HTTPStatusError code body) \<Rightarrow>
          Inl (PyException (''PPT generator service returned error '' @ show_nat code @ '': '' @ body))
      | Inl err \<Rightarrow> Inl err
      | Inr extract_result \<Rightarrow>
         (case py_get extract_result ''success'' PNone of
            Inl err \<Rightarrow> Inl err
          | Inr ok \<Rightarrow>
              if \<not> truthy ok
              then (case py_get extract_result ''error'' (PStr ''unknown error'') of
                      Inl err \<Rightarrow> Inl err
                    | Inr msg \<Rightarrow>
                        Inl (PyException (''extracting the LaTeX content failed: '' @ py_str msg)))
              else (case py_get extract_result ''content'' (PStr []) of
                      Inl err \<Rightarrow> Inl err
                    | Inr (PStr latex_content) \<Rightarrow>
                        if py_strip latex_content = []
                        then Inl (PyException ''the extracted LaTeX content is empty'')
                        else Inr latex_content
                    | Inr _ \<Rightarrow> Inl (AttributeError ''object has no attribute strip''))))"

text \<open>
  The third step compiles. In the plain mode the answer's \<open>success\<close> field is checked
  and the result dict is returned. In the style-variant mode the answer is read into a
  local variable and the branch ends there: the method falls off its end and returns
  \<open>None\<close>.
\<close>

definition compile_project ::
  "env \<Rightarrow> string \<Rightarrow> pyval \<Rightarrow> string \<Rightarrow> pyval \<Rightarrow> pyval \<Rightarrow> pyval \<Rightarrow> string \<Rightarrow> py_error + pyval" where
  "compile_project e service_url parameters uploaded_file_path main_tex_filename title theme
                   beamer_content =
     ppt_service_errors ''compiling the Beamer PDF failed: ''
       (case py_get parameters ''use_ucas_style'' (PBool False) of
          Inl err \<Rightarrow> Inl err
        | Inr use_ucas_style \<Rightarrow>
            if truthy use_ucas_style then
              (if ucas_resources e \<noteq> [] then
                 (case archive_error e of
                    Some err \<Rightarrow> Inl err
                  | None \<Rightarrow>
                     (case checked_json (post_form e (service_url @ ''/generate_beamer_from_project'')
                             [(''archive_file'', PStr ''merged_project.zip''),
                              (''beamer_content'', PStr beamer_content),
                              (''title'', title),
                              (''main_tex_filename'', PStr ''main.tex'')]) of
                        Inl err \<Rightarrow> Inl err
                      | Inr res \<Rightarrow> Inr PNone))
               else
                 (case checked_json (post_form e (service_url @ ''/generate_beamer_from_project'')
                         [(''archive_file'', PStr uploaded_file_path),
                          (''beamer_content'', PStr beamer_content),
                          (''title'', title),
                          (''main_tex_filename'', main_tex_filename)]) of
                    Inl err \<Rightarrow> Inl err
                  | Inr res \<Rightarrow> Inr PNone))
            else
              (case checked_json (post_form e (service_url @ ''/generate_beamer_from_project'')
                      [(''archive_file'', PStr uploaded_file_path),
                       (''beamer_content'', PStr beamer_content),
                       (''title'', title),
                       (''main_tex_filename'', main_tex_filename)]) of
                 Inl err \<Rightarrow> Inl err
               | Inr res \<Rightarrow>
                  (case py_get res ''success'' PNone of
                     Inl err \<Rightarrow> Inl err
                   | Inr ok \<Rightarrow>
                       if \<not> truthy ok
                       then (case py_get res ''error'' (PStr ''unknown error'') of
                               Inl err \<Rightarrow> Inl err
                             | Inr msg \<Rightarrow>
                                 Inl (PyException (''compiling the Beamer PDF failed: '' @ py_str msg)))
                       else (case py_get res ''pdf_path'' PNone of
                               Inl err \<Rightarrow> Inl err
                             | Inr pdf_path \<Rightarrow>
                                 Inr (PDict [(''status'', PStr ''success''),
                                             (''latex_content'', PStr beamer_content),
                                             (''pdf_path'', pdf_path),
                                             (''title'', title),
                                             (''conversion_type'', PStr ''latex_to_beamer''),
                                             (''main_file'', main_tex_filename),
                                             (''success'', PBool True),
                                             (''theme'', theme),
                                             (''input_type'', PStr ''latex_project''),
                                             (''use_ucas_style'', use_ucas_style)])))))"

text \<open>The second step: the authoring call and the extraction of the markup.\<close>

definition author_beamer :: "env \<Rightarrow> agent \<Rightarrow> string \<Rightarrow> py_error + string" where
  "author_beamer e m prompt =
     reraise_as ''the model failed to generate Beamer code: ''
       (case call_llm e m [project_system_message, \<lparr>msg_role = ''user'', msg_content = prompt\<rparr>] [] of
          Inl err \<Rightarrow> Inl err
        | Inr response \<Rightarrow> Inr (extract_latex_code (py_strip response)))"

definition handle_latex_project :: "env \<Rightarrow> agent \<Rightarrow> pyval \<Rightarrow> py_error + pyval" where
  "handle_latex_project e m parameters =
     reraise_as ''handling the LaTeX project failed: ''
     (case py_get parameters ''uploaded_file_path'' PNone of
        Inl err \<Rightarrow> Inl err
      | Inr uploaded \<Rightarrow>
     (case py_get parameters ''main_tex_filename'' (PStr ''main.tex'') of
        Inl err \<Rightarrow> Inl err
      | Inr main_tex_filename \<Rightarrow>
     (case py_get parameters ''title'' (PStr ''presentation'') of
        Inl err \<Rightarrow> Inl err
      | Inr title \<Rightarrow>
     (case py_get parameters ''theme'' (PStr ''academic'') of
        Inl err \<Rightarrow> Inl err
      | Inr theme \<Rightarrow>
     (case py_get parameters ''language'' (PStr ''zh-CN'') of
        Inl err \<Rightarrow> Inl err
      | Inr language \<Rightarrow>
        if \<not> truthy uploaded then Inl (PyException ''no uploaded file path given'')
        else
     (case mcp_clients m ''ppt_generator'' of
        None \<Rightarrow> Inl (PyException ''PPT generator service unavailable'')
      | Some service_url \<Rightarrow>
        if service_url = [] then Inl (PyException ''PPT generator service unavailable'')
        else
     (case uploaded of
        PStr uploaded_file_path \<Rightarrow>
          if \<not> upload_exists e uploaded_file_path
          then Inl (PyException (''the uploaded file does not exist: '' @ uploaded_file_path))
          else
           (case extract_tex_content e service_url uploaded_file_path main_tex_filename of
              Inl err \<Rightarrow> Inl err
            | Inr latex_content \<Rightarrow>
               (case llm_guard m of
                  Inl err \<Rightarrow> Inl err
                | Inr _ \<Rightarrow>
                   (case author_beamer e m
                           (build_prompt_by_input_type e (PStr ''latex_project'')
                              (PStr latex_content) title theme language parameters) of
                      Inl err \<Rightarrow> Inl err
                    | Inr beamer_content \<Rightarrow>
                        compile_project e service_url parameters uploaded_file_path
                          main_tex_filename title theme beamer_content)))
      | _ \<Rightarrow> Inl (AttributeError ''object has no attribute replace''))))))))"

text \<open>
  \<open>_generate_ppt_with_llm\<close>. A LaTeX project is handed to \<open>_handle_latex_project\<close>
  before the \<open>try\<close> block. Otherwise the markup is authored and extracted, and the
  compilation runs inside an inner \<open>try\<close> whose \<open>except\<close> returns the markup with
  the compilation error recorded. A message content is a string: a custom prompt that is
  truthy and not a string is refused by the provider call, inside the \<open>try\<close>.
\<close>

definition compile_or_keep ::
  "env \<Rightarrow> agent \<Rightarrow> pyval \<Rightarrow> string \<Rightarrow> pyval \<Rightarrow> pyval \<Rightarrow> pyval \<Rightarrow> pyval" where
  "compile_or_keep e m parameters latex_content title theme input_type =
     (case (case py_get parameters ''use_ucas_style'' (PBool False) of
              Inl err \<Rightarrow> Inl err
            | Inr use_ucas_style \<Rightarrow>
               (case call_ppt_service e m latex_content title use_ucas_style of
                  Inl err \<Rightarrow> Inl err
                | Inr ppt_result \<Rightarrow>
                   (case py_get ppt_result ''pdf_path'' PNone of
                      Inl err \<Rightarrow> Inl err
                    | Inr pdf_path \<Rightarrow>
                       (case py_get ppt_result ''success'' (PBool True) of
                          Inl err \<Rightarrow> Inl err
                        | Inr ok \<Rightarrow>
                            Inr (PDict [(''status'', PStr ''success''),
                                        (''latex_content'', PStr latex_content),
                                        (''title'', title),
                                        (''theme'', theme),
                                        (''input_type'', input_type),
                                        (''pdf_path'', pdf_path),
                                        (''success'', ok),
                                        (''use_ucas_style'', use_ucas_style)]))))) of
        Inr res \<Rightarrow> res
      | Inl err \<Rightarrow>
          PDict [(''status'', PStr ''success''),
                 (''latex_content'', PStr latex_content),
                 (''title'', title),
                 (''theme'', theme),
                 (''input_type'', input_type),
                 (''pdf_compilation_error'', PStr (str_of_error err))])"

definition generate_ppt_with_llm :: "env \<Rightarrow> agent \<Rightarrow> pyval \<Rightarrow> py_error + pyval" where
  "generate_ppt_with_llm e m parameters =
     (case py_get parameters ''content'' (PStr []) of
        Inl err \<Rightarrow> Inl err
      | Inr content \<Rightarrow>
     (case py_get parameters ''title'' (PStr ''presentation'') of
        Inl err \<Rightarrow> Inl err
      | Inr title \<Rightarrow>
     (case py_get parameters ''theme'' (PStr ''academic'') of
        Inl err \<Rightarrow> Inl err
      | Inr theme \<Rightarrow>
     (case py_get parameters ''language'' (PStr ''zh-CN'') of
        Inl err \<Rightarrow> Inl err
      | Inr language \<Rightarrow>
     (case py_get parameters ''input_type'' (PStr ''text_description'') of
        Inl err \<Rightarrow> Inl err
      | Inr input_type \<Rightarrow>
        if input_type = PStr ''latex_project'' then handle_latex_project e m parameters
        else
     (case py_get parameters ''prompt'' PNone of
        Inl err \<Rightarrow> Inl err
      | Inr prompt0 \<Rightarrow>
       (let prompt = (if truthy prompt0 then prompt0
                      else PStr (build_prompt_by_input_type e input_type content title theme
                                   language parameters))
        in reraise_as ''generating the PPT failed: ''
          (case llm_guard m of
             Inl err \<Rightarrow> Inl err
           | Inr _ \<Rightarrow>
              (case prompt of
                 PStr p \<Rightarrow>
                  (case call_llm e m [ppt_system_message,
                                      \<lparr>msg_role = ''user'', msg_content = p\<rparr>] [] of
                     Inl err \<Rightarrow> Inl err
                   | Inr response \<Rightarrow>
                       Inr (compile_or_keep e m parameters
                              (extract_latex_code (py_strip response)) title theme input_type))
               | _ \<Rightarrow> Inl (TypeError ''message content is not a string''))))))))))"

text \<open>
  \<open>_process_with_llm\<close>: the dispatch on the tool type. Its \<open>except\<close> clause logs and
  re-raises the same exception.
\<close>

definition process_with_llm :: "env \<Rightarrow> agent \<Rightarrow> pyval \<Rightarrow> pyval \<Rightarrow> py_error + pyval" where
  "process_with_llm e m tool_type parameters =
     (case tool_type of
        PStr t \<Rightarrow>
          if t \<in> {''ppt'', ''ppt_generator''} then generate_ppt_with_llm e m parameters
          else if t \<in> {''chart'', ''chart_generator''} then call_mcp_service e m t parameters
          else if t = ''chart_data_generator'' then generate_chart_data_with_llm e m parameters
          else if t = ''scheduler'' then call_mcp_service e m t parameters
          else if t \<in> {''api-docs'', ''api_doc_generator''} then call_mcp_service e m t parameters
          else Inl (unsupported_tool_type t)
      | _ \<Rightarrow> Inl (unsupported_tool_type (py_str tool_type)))"

section \<open>The task registry\<close>

text \<open>
  \<open>_update_backend_task\<close> builds the update body and PUTs it; any exception of the
  request is caught and logged, so the manager's own fields are untouched whether the
  external store accepts the request or not.
\<close>

definition update_data :: "string \<Rightarrow> pyval \<Rightarrow> string option \<Rightarrow> (string \<times> pyval) list" where
  "update_data st res error_message =
     [(''status'', PStr st)]
     @ (if truthy res then [(''result'', res)] else [])
     @ (case error_message of
          None \<Rightarrow> []
        | Some msg \<Rightarrow> if msg \<noteq> [] then [(''error_message'', PStr msg)] else [])"

definition update_backend_task ::
  "env \<Rightarrow> agent \<Rightarrow> string \<Rightarrow> string \<Rightarrow> pyval \<Rightarrow> string option \<Rightarrow> agent" where
  "update_backend_task e m task_id st res error_message =
     (if backend_put_ok e task_id (update_data st res error_message)
      then m\<lparr>backend_updates :=
               backend_updates m @ [(task_id, update_data st res error_message)]\<rparr>
      else m)"

text \<open>
  \<open>cancel_task\<close>. Nothing in its \<open>try\<close> block can raise (the notification swallows
  its own exceptions), so the \<open>except\<close> clause that re-raises is never entered; the
  result type still has the error side, as the source has the clause.
\<close>

definition cancel_task ::
  "env \<Rightarrow> agent \<Rightarrow> string \<Rightarrow> agent \<times> (py_error + (string \<times> pyval) list)" where
  "cancel_task e m task_id =
     (case tasks m task_id of
        Some r \<Rightarrow>
          (let m1 = m\<lparr>tasks := (tasks m)(task_id \<mapsto> r\<lparr>status := ''cancelled''\<rparr>)\<rparr>;
               m2 = update_backend_task e m1 task_id ''cancelled'' PNone None
           in (m2, Inr [(''status'', PStr ''success''), (''message'', PStr ''task cancelled'')]))
      | None \<Rightarrow>
          (m, Inr [(''status'', PStr ''error''), (''message'', PStr ''task does not exist'')]))"

text \<open>\<open>get_task_status\<close>: the stored record, or the not-found marker.\<close>

definition get_task_status :: "agent \<Rightarrow> string \<Rightarrow> task_record + (string \<times> pyval) list" where
  "get_task_status m task_id =
     (case tasks m task_id of
        Some r \<Rightarrow> Inl r
      | None \<Rightarrow> Inr [(''status'', PStr ''not_found''), (''message'', PStr ''task does not exist'')])"

text \<open>
  \<open>process_task\<close> suspends while the tool flow runs, and other requests are served
  meanwhile, so it is modelled in two halves. The first stores the record at
  \<open>running\<close> and notifies the task store.
\<close>

definition process_task_begin :: "env \<Rightarrow> agent \<Rightarrow> string \<Rightarrow> pyval \<Rightarrow> agent" where
  "process_task_begin e m task_id task_data =
     update_backend_task e
       (m\<lparr>tasks := (tasks m)(task_id \<mapsto>
             \<lparr>status = ''running'', data = task_data, result = PNone, error = None\<rparr>)\<rparr>)
       task_id ''running'' PNone None"

text \<open>What runs in between: the tool type and the parameters are read, the flow is run.\<close>

definition task_flow :: "env \<Rightarrow> agent \<Rightarrow> pyval \<Rightarrow> py_error + pyval" where
  "task_flow e m task_data =
     (case py_get task_data ''tool_type'' (PStr []) of
        Inl err \<Rightarrow> Inl err
      | Inr tool_type \<Rightarrow>
         (case py_get task_data ''parameters'' (PDict []) of
            Inl err \<Rightarrow> Inl err
          | Inr parameters \<Rightarrow> process_with_llm e m tool_type parameters))"

text \<open>
  The second half, given what the flow returned or raised. On a return the record is set
  to \<open>completed\<close> with the result; if the record is gone the subscript raises KeyError
  and the \<open>except\<close> branch runs. The \<open>except\<close> branch sets the record, if there is
  one, to \<open>failed\<close> with the message. Either way the task store is notified and a
  summary dict is returned: nothing is raised.
\<close>

definition task_failed ::
  "env \<Rightarrow> agent \<Rightarrow> string \<Rightarrow> py_error \<Rightarrow> agent \<times> (string \<times> pyval) list" where
  "task_failed e m task_id err =
     (let m1 = (case tasks m task_id of
                  Some r \<Rightarrow> m\<lparr>tasks := (tasks m)(task_id \<mapsto>
                               r\<lparr>status := ''failed'', error := Some (str_of_error err)\<rparr>)\<rparr>
                | None \<Rightarrow> m)
      in (update_backend_task e m1 task_id ''failed'' PNone (Some (str_of_error err)),
          [(''status'', PStr ''error''),
           (''message'', PStr (''task processing failed: '' @ str_of_error err))]))"

definition process_task_end ::
  "env \<Rightarrow> agent \<Rightarrow> string \<Rightarrow> py_error + pyval \<Rightarrow> agent \<times> (string \<times> pyval) list" where
  "process_task_end e m task_id outcome =
     (case outcome of
        Inl err \<Rightarrow> task_failed e m task_id err
      | Inr res \<Rightarrow>
         (case tasks m task_id of
            None \<Rightarrow> task_failed e m task_id (KeyError task_id)
          | Some r \<Rightarrow>
              (update_backend_task e
                 (m\<lparr>tasks := (tasks m)(task_id \<mapsto> r\<lparr>status := ''completed'', result := res\<rparr>)\<rparr>)
                 task_id ''completed'' res None,
               [(''status'', PStr ''success''), (''message'', PStr ''task processing finished''),
                (''result'', res)])))"

text \<open>\<open>process_task\<close> when nothing else is served while it is suspended.\<close>

definition process_task ::
  "env \<Rightarrow> agent \<Rightarrow> string \<Rightarrow> pyval \<Rightarrow> agent \<times> (string \<times> pyval) list" where
  "process_task e m task_id task_data =
     (let m1 = process_task_begin e m task_id task_data
      in process_task_end e m1 task_id (task_flow e m1 task_data))"

text \<open>
  The requests that touch the registry, for the interleavings. \<open>Submit\<close> is the route
  \<open>POST /tasks\<close> with the task id and the task data of its body: it refuses an empty
  id, starts \<open>process_task\<close> when the manager is running and only acknowledges
  otherwise. \<open>Finish\<close> is an execution resuming with what its flow
  returned or raised. \<open>Cancel\<close> is \<open>cancel_task\<close>.
\<close>

datatype request = Submit string pyval | Finish string "py_error + pyval" | Cancel string

fun request_id :: "request \<Rightarrow> string" where
  "request_id (Submit t d) = t"
| "request_id (Finish t outcome) = t"
| "request_id (Cancel t) = t"

fun serve :: "env \<Rightarrow> agent \<Rightarrow> request \<Rightarrow> agent" where
  "serve e m (Submit t d) =
     (if t = [] then m else if running m then process_task_begin e m t d else m)"
| "serve e m (Finish t outcome) = fst (process_task_end e m t outcome)"
| "serve e m (Cancel t) = fst (cancel_task e m t)"

definition serve_all :: "env \<Rightarrow> agent \<Rightarrow> request list \<Rightarrow> agent" where
  "serve_all e m rs = foldl (serve e) m rs"




section \<open>Example environments\<close>

text \<open>
  An environment in which nothing outside answers: no SDK is importable, every transport
  fails, the local settings are empty. The examples below override the fields they need.
\<close>

definition offline :: env where
  "offline =
     \<lparr>anthropic_available = False, gemini_available = False,
      ctor_ok = (\<lambda>c. True),
      remote_get = TransportError ''connection refused'',
      settings_config = PDict [],
      settings_default_provider = PStr ''openai'',
      backend_put_ok = (\<lambda>t b. False),
      llm_create = (\<lambda>c r. Inl (RequestError ''connection refused'')),
      build_prompt_by_input_type = (\<lambda>a b c d f g. ''prompt''),
      build_chart_data_prompt = (\<lambda>a b c. ''prompt''),
      upload_exists = (\<lambda>p. False),
      ucas_resources = [],
      archive_error = None,
      post_form = (\<lambda>u d. TransportError ''connection refused''),
      post_json = (\<lambda>u d. TransportError ''connection refused'')\<rparr>"

text \<open>
  A manager that is running with the scheduling service registered, and a scheduling
  service that accepts one request body and is unreachable for any other.
\<close>

definition scheduler_env :: env where
  "scheduler_env = offline\<lparr>post_json := (\<lambda>u d.
      if d = PDict [(''title'', PStr ''standup'')]
      then HttpResponse 200 [] (Some (PDict [(''success'', PBool True)]))
      else TransportError ''connection refused'')\<rparr>"

definition scheduler_agent :: agent where
  "scheduler_agent = init_agent\<lparr>running := True,
      mcp_clients := [''schedule_reminder'' \<mapsto> ''http://localhost:8004'']\<rparr>"

definition good_task :: pyval where
  "good_task = PDict [(''tool_type'', PStr ''scheduler''),
                      (''parameters'', PDict [(''title'', PStr ''standup'')])]"

definition bad_task :: pyval where
  "bad_task = PDict [(''tool_type'', PStr ''scheduler''), (''parameters'', PDict [])]"

definition completed_agent :: agent where
  "completed_agent = fst (process_task scheduler_env scheduler_agent ''t1'' good_task)"

text \<open>
  A provider that answers every request with one canned response, a manager whose
  active provider is the given one with the given client, and a two-message chat.
\<close>

definition canned_env :: "llm_response \<Rightarrow> env" where
  "canned_env r = offline\<lparr>llm_create := (\<lambda>c rq. Inr r)\<rparr>"

definition provider_agent :: "string \<Rightarrow> client \<Rightarrow> agent" where
  "provider_agent p c = init_agent\<lparr>running := True, llm_clients := [(p, c)],
      llm_config := PDict [(''api_key'', PStr ''sk''), (''model'', PStr ''m1'')],
      current_provider := Some p\<rparr>"

definition hello :: "message list" where
  "hello = [\<lparr>msg_role = ''system'', msg_content = ''be brief''\<rparr>,
            \<lparr>msg_role = ''user'', msg_content = ''say OK''\<rparr>]"

text \<open>
  Configuration sources: a local settings object with one OpenAI provider; a backend
  that is unreachable, one that answers 500, and one that answers 200 with two
  providers of which the declared default is the one whose SDK is not importable.
\<close>

definition local_openai_config :: pyval where
  "local_openai_config =
     PDict [(''llm_providers'',
             PDict [(''openai'', PDict [(''api_key'', PStr ''sk-local''),
                                        (''model'', PStr ''gpt-4''),
                                        (''base_url'', PStr ''https://api.openai.com/v1'')])])]"

definition backend_down_env :: env where
  "backend_down_env = offline\<lparr>settings_config := local_openai_config\<rparr>"

definition backend_500_env :: env where
  "backend_500_env = offline\<lparr>remote_get := HttpResponse 500 ''Internal Server Error'' None,
                              settings_config := local_openai_config\<rparr>"





text \<open>
  A manager with an OpenAI provider and the PPT service registered; a world in which the
  provider answers \<open>markup\<close>, the extraction endpoint answers, and every compilation
  request is answered 500; and a world in which the compiler succeeds and the style
  resources exist.
\<close>

definition ppt_agent :: agent where
  "ppt_agent = (provider_agent ''openai''
                  (OpenAIClient (PStr ''sk'') (PStr ''https://api.openai.com/v1'')))
               \<lparr>mcp_clients := [''ppt_generator'' \<mapsto> ''http://localhost:8002'']\<rparr>"






definition style_env :: env where
  "style_env = offline
     \<lparr>llm_create := (\<lambda>c rq. Inr (ChatResponse [Some ''markup''])),
      upload_exists := (\<lambda>p. True),
      ucas_resources := [(''logo.png'', ''images/logo.png'')],
      post_form := (\<lambda>u d.
         if u = ''http://localhost:8002/extract_tex_content''
         then HttpResponse 200 []
                (Some (PDict [(''success'', PBool True), (''content'', PStr ''paper'')]))
         else HttpResponse 200 []
                (Some (PDict [(''success'', PBool True), (''pdf_path'', PStr ''out.pdf'')])))\<rparr>"

definition style_task :: pyval where
  "style_task = PDict [(''tool_type'', PStr ''ppt''),
                       (''parameters'', PDict [(''input_type'', PStr ''latex_project''),
                                               (''uploaded_file_path'', PStr ''paper.zip''),
                                               (''use_ucas_style'', PBool True)])]"


section \<open>Theorems\<close>

subsection \<open>The task registry\<close>

lemma tasks_update_backend_task:
  "tasks (update_backend_task e m t s r em) = tasks m"
  by (simp add: update_backend_task_def)

lemma tasks_cancel_task:
  "tasks (fst (cancel_task e m t)) =
     (case tasks m t of None \<Rightarrow> tasks m
      | Some r \<Rightarrow> (tasks m)(t \<mapsto> r\<lparr>status := ''cancelled''\<rparr>))"
  by (simp add: cancel_task_def tasks_update_backend_task Let_def split: option.splits)

lemma tasks_process_task_begin:
  "tasks (process_task_begin e m t d) =
     (tasks m)(t \<mapsto> \<lparr>status = ''running'', data = d, result = PNone, error = None\<rparr>)"
  by (simp add: process_task_begin_def tasks_update_backend_task)

lemma tasks_task_failed:
  "tasks (fst (task_failed e m t err)) =
     (case tasks m t of None \<Rightarrow> tasks m
      | Some r \<Rightarrow> (tasks m)(t \<mapsto> r\<lparr>status := ''failed'', error := Some (str_of_error err)\<rparr>))"
  by (simp add: task_failed_def tasks_update_backend_task Let_def split: option.splits)

lemma tasks_process_task_end:
  "tasks (fst (process_task_end e m t outcome)) =
     (case tasks m t of None \<Rightarrow> tasks m
      | Some r \<Rightarrow>
         (case outcome of
            Inl err \<Rightarrow> (tasks m)(t \<mapsto> r\<lparr>status := ''failed'', error := Some (str_of_error err)\<rparr>)
          | Inr res \<Rightarrow> (tasks m)(t \<mapsto> r\<lparr>status := ''completed'', result := res\<rparr>)))"
  by (simp add: process_task_end_def tasks_task_failed tasks_update_backend_task
           split: option.splits sum.splits)

lemma serve_other: "request_id rq \<noteq> t \<Longrightarrow> tasks (serve e m rq) t = tasks m t"
  by (cases rq)
     (auto simp: tasks_process_task_begin tasks_process_task_end tasks_cancel_task
           split: option.splits sum.splits)

lemma serve_all_other:
  "\<forall>rq \<in> set rs. request_id rq \<noteq> t \<Longrightarrow> tasks (serve_all e m rs) t = tasks m t"
  unfolding serve_all_def
  by (induction rs arbitrary: m) (auto simp: serve_other)

lemma scheduler_flow_good:
  "task_flow scheduler_env m good_task =
     (case mcp_clients m ''schedule_reminder'' of
        None \<Rightarrow> Inl (unsupported_tool_type ''scheduler'')
      | Some u \<Rightarrow> Inr (PDict [(''success'', PBool True)]))"
  by (simp add: task_flow_def good_task_def process_with_llm_def call_mcp_service_def
        service_mapping_def scheduler_env_def offline_def checked_json_def
      split: option.splits)


lemma mcp_clients_update_backend_task:
  "mcp_clients (update_backend_task e m t s r em) = mcp_clients m"
  by (simp add: update_backend_task_def)

lemma mcp_clients_process_task_begin:
  "mcp_clients (process_task_begin e m t d) = mcp_clients m"
  by (simp add: process_task_begin_def mcp_clients_update_backend_task)

lemma tasks_completed_agent:
  "tasks completed_agent =
     [''t1'' \<mapsto> \<lparr>status = ''completed'', data = good_task,
                 result = PDict [(''success'', PBool True)], error = None\<rparr>]"
  by (simp add: completed_agent_def process_task_def Let_def tasks_process_task_end
        tasks_process_task_begin scheduler_flow_good mcp_clients_process_task_begin
        scheduler_agent_def init_agent_def)

lemma running_update_backend_task:
  "running (update_backend_task e m t s r em) = running m"
  by (simp add: update_backend_task_def)

lemma running_process_task_begin: "running (process_task_begin e m t d) = running m"
  by (simp add: process_task_begin_def running_update_backend_task)

lemma running_process_task_end: "running (fst (process_task_end e m t outcome)) = running m"
  by (simp add: process_task_end_def task_failed_def running_update_backend_task Let_def
           split: option.splits sum.splits)

lemma mcp_clients_process_task_end:
  "mcp_clients (fst (process_task_end e m t outcome)) = mcp_clients m"
  by (simp add: process_task_end_def task_failed_def mcp_clients_update_backend_task Let_def
           split: option.splits sum.splits)

lemma mcp_clients_completed_agent:
  "mcp_clients completed_agent = [''schedule_reminder'' \<mapsto> ''http://localhost:8004'']"
  by (simp add: completed_agent_def process_task_def Let_def mcp_clients_process_task_end
        mcp_clients_process_task_begin scheduler_agent_def init_agent_def)


lemma running_completed_agent: "running completed_agent"
  by (simp add: completed_agent_def process_task_def Let_def running_process_task_end
        running_process_task_begin scheduler_agent_def init_agent_def)

text \<open>
  C1 (as stated). The claim is that a record whose status is \<open>completed\<close>, \<open>failed\<close>
  or \<open>cancelled\<close> keeps that status under every later operation. The registry has no
  such guard: on the record of a task that has completed, a cancel request writes
  \<open>cancelled\<close>, a new submission with the same id writes a fresh \<open>running\<close> record,
  and an execution that resumes after a cancel writes \<open>completed\<close> over \<open>cancelled\<close>.
\<close>

theorem terminal_status_overwritten_counterexample:
  "map_option status (tasks completed_agent ''t1'') = Some ''completed''
   \<and> map_option status (tasks (serve scheduler_env completed_agent (Cancel ''t1'')) ''t1'')
        = Some ''cancelled''
   \<and> map_option status (tasks (serve scheduler_env completed_agent (Submit ''t1'' bad_task)) ''t1'')
        = Some ''running''
   \<and> map_option status
        (tasks (serve_all scheduler_env completed_agent
                  [Cancel ''t1'', Finish ''t1'' (task_flow scheduler_env completed_agent good_task)])
               ''t1'')
        = Some ''completed''"
  by (simp add: tasks_completed_agent tasks_cancel_task tasks_process_task_begin
        running_completed_agent serve_all_def tasks_process_task_end
        scheduler_flow_good mcp_clients_completed_agent)

text \<open>
  C1 (amended). The status of a task record is changed by the requests addressed to its
  own id and by nothing else: any sequence of requests for other ids leaves the whole
  record as it is, while a request for the same id overwrites the status whatever it
  was: a cancel writes \<open>cancelled\<close>, an execution that resumes writes \<open>completed\<close>
  (with its result) or \<open>failed\<close> (with its message), and a submission, when the
  manager is running and the id is not empty, stores a fresh \<open>running\<close> record.
\<close>

theorem status_changed_by_own_requests_only:
  assumes "tasks m t = Some r"
  shows "(\<forall>rs. (\<forall>rq \<in> set rs. request_id rq \<noteq> t) \<longrightarrow> tasks (serve_all e m rs) t = Some r)
       \<and> tasks (serve e m (Cancel t)) t = Some (r\<lparr>status := ''cancelled''\<rparr>)
       \<and> tasks (serve e m (Finish t (Inr res))) t
           = Some (r\<lparr>status := ''completed'', result := res\<rparr>)
       \<and> tasks (serve e m (Finish t (Inl err))) t
           = Some (r\<lparr>status := ''failed'', error := Some (str_of_error err)\<rparr>)
       \<and> (running m \<and> t \<noteq> [] \<longrightarrow>
            tasks (serve e m (Submit t d)) t
              = Some \<lparr>status = ''running'', data = d, result = PNone, error = None\<rparr>)"
  using assms
  by (simp add: serve_all_other tasks_cancel_task tasks_process_task_end
        tasks_process_task_begin)

theorem status_changed_by_own_requests_only_witness:
  "tasks completed_agent ''t1''
     = Some \<lparr>status = ''completed'', data = good_task,
             result = PDict [(''success'', PBool True)], error = None\<rparr>
   \<and> tasks (serve_all scheduler_env completed_agent
              [Submit ''t2'' bad_task, Cancel ''t2'', Finish ''t3'' (Inr PNone)]) ''t1''
     = Some \<lparr>status = ''completed'', data = good_task,
             result = PDict [(''success'', PBool True)], error = None\<rparr>
   \<and> tasks (serve scheduler_env completed_agent (Cancel ''t1'')) ''t1''
     = Some \<lparr>status = ''cancelled'', data = good_task,
             result = PDict [(''success'', PBool True)], error = None\<rparr>"
  using status_changed_by_own_requests_only
    [of completed_agent "''t1''"
        "\<lparr>status = ''completed'', data = good_task,
          result = PDict [(''success'', PBool True)], error = None\<rparr>"
        scheduler_env]
  by (simp add: tasks_completed_agent)

text \<open>
  C10 (as stated). The claim ends: a cancelled task has neither result nor error set.
  Cancelling a task that has completed leaves its result in the record.
\<close>

theorem cancelled_with_result_counterexample:
  "tasks (fst (cancel_task scheduler_env completed_agent ''t1'')) ''t1''
     = Some \<lparr>status = ''cancelled'', data = good_task,
             result = PDict [(''success'', PBool True)], error = None\<rparr>"
  by (simp add: tasks_cancel_task tasks_completed_agent)

text \<open>
  C10 (amended). \<open>cancel_task\<close> on an id that is in the map changes only the status
  field of that record, to \<open>cancelled\<close>: its data, result and error are what they
  were, every other record and every other field of the manager is untouched, and the
  call returns its success dict. So the cancelled record has a result or an error
  exactly when it had one before the cancel.
\<close>

theorem cancel_task_frame:
  assumes "tasks m task_id = Some r"
  shows "tasks (fst (cancel_task e m task_id)) task_id = Some (r\<lparr>status := ''cancelled''\<rparr>)
       \<and> (\<forall>t. t \<noteq> task_id \<longrightarrow> tasks (fst (cancel_task e m task_id)) t = tasks m t)
       \<and> running (fst (cancel_task e m task_id)) = running m
       \<and> mcp_clients (fst (cancel_task e m task_id)) = mcp_clients m
       \<and> llm_clients (fst (cancel_task e m task_id)) = llm_clients m
       \<and> llm_config (fst (cancel_task e m task_id)) = llm_config m
       \<and> current_provider (fst (cancel_task e m task_id)) = current_provider m
       \<and> llm_status (fst (cancel_task e m task_id)) = llm_status m
       \<and> snd (cancel_task e m task_id)
           = Inr [(''status'', PStr ''success''), (''message'', PStr ''task cancelled'')]"
  using assms by (simp add: cancel_task_def Let_def update_backend_task_def)

theorem cancel_task_frame_witness:
  "tasks (process_task_begin offline init_agent ''t1'' good_task) ''t1''
     = Some \<lparr>status = ''running'', data = good_task, result = PNone, error = None\<rparr>
   \<and> tasks (fst (cancel_task offline (process_task_begin offline init_agent ''t1'' good_task) ''t1''))
        ''t1''
     = Some \<lparr>status = ''cancelled'', data = good_task, result = PNone, error = None\<rparr>"
  using cancel_task_frame
    [of "process_task_begin offline init_agent ''t1'' good_task" "''t1''"
        "\<lparr>status = ''running'', data = good_task, result = PNone, error = None\<rparr>" offline]
  by (simp add: tasks_process_task_begin)








subsection \<open>The unified LLM invocation\<close>

lemma py_strip_OK: "py_strip ''OK'' = ''OK''"
  by (simp add: py_strip_def is_space_def)

text \<open>
  C3. With a configuration loaded and an active provider whose client belongs to the
  provider's family, \<open>_call_llm\<close> returns the plain string \<open>OK\<close> for each of the
  three response shapes: a chat completion whose first choice has the message content
  \<open>OK\<close>, a structured-turn reply whose first content block is a text block \<open>OK\<close>,
  and a generative-turn reply whose first candidate's first part has the text \<open>OK\<close>.
\<close>

theorem call_llm_returns_plain_text:
  assumes "llm_config m = PDict cfg"
    and "current_provider m = Some provider"
    and "map_of (llm_clients m) provider = Some cl"
  shows "(provider \<in> {''openai'', ''gpt'', ''azure'', ''ollama'', ''deepseek''}
          \<and> cl = OpenAIClient k u
          \<and> (\<forall>rq. llm_create e cl rq = Inr (ChatResponse (Some ''OK'' # choices)))
          \<longrightarrow> call_llm e m messages kwargs = Inr ''OK'')
       \<and> (provider = ''anthropic''
          \<and> cl = AnthropicClient k
          \<and> (\<forall>rq. llm_create e cl rq = Inr (MessagesResponse (Some (TextBlock ''OK'' # blocks))))
          \<longrightarrow> call_llm e m messages kwargs = Inr ''OK'')
       \<and> (provider = ''gemini''
          \<and> cl = GeminiClient k
          \<and> (\<forall>rq. llm_create e cl rq = Inr (GenerateResponse ((''OK'' # parts) # candidates)))
          \<longrightarrow> call_llm e m messages kwargs = Inr ''OK'')"
proof (intro conjI impI)
  assume h: "provider \<in> {''openai'', ''gpt'', ''azure'', ''ollama'', ''deepseek''}
          \<and> cl = OpenAIClient k u
          \<and> (\<forall>rq. llm_create e cl rq = Inr (ChatResponse (Some ''OK'' # choices)))"
  then have r: "\<And>rq. llm_create e (OpenAIClient k u) rq = Inr (ChatResponse (Some ''OK'' # choices))"
    by blast
  have "call_openai_compatible e m (OpenAIClient k u) messages kwargs = Inr ''OK''"
    using assms(1) by (simp add: call_openai_compatible_def py_strip_OK r)
  with h assms show "call_llm e m messages kwargs = Inr ''OK''"
    by (auto simp: call_llm_def)
next
  assume h: "provider = ''anthropic''
          \<and> cl = AnthropicClient k
          \<and> (\<forall>rq. llm_create e cl rq = Inr (MessagesResponse (Some (TextBlock ''OK'' # blocks))))"
  then have r: "\<And>rq. llm_create e (AnthropicClient k) rq
                        = Inr (MessagesResponse (Some (TextBlock ''OK'' # blocks)))"
    by blast
  have "call_anthropic e m (AnthropicClient k) messages kwargs = Inr ''OK''"
    using assms(1) by (simp add: call_anthropic_def r split: prod.splits)
  with h assms show "call_llm e m messages kwargs = Inr ''OK''"
    by (simp add: call_llm_def)
next
  assume h: "provider = ''gemini''
          \<and> cl = GeminiClient k
          \<and> (\<forall>rq. llm_create e cl rq = Inr (GenerateResponse ((''OK'' # parts) # candidates)))"
  then have r: "\<And>rq. llm_create e (GeminiClient k) rq
                        = Inr (GenerateResponse ((''OK'' # parts) # candidates))"
    by blast
  have "call_gemini e m (GeminiClient k) messages kwargs = Inr ''OK''"
    using assms(1) by (simp add: call_gemini_def r)
  with h assms show "call_llm e m messages kwargs = Inr ''OK''"
    by (simp add: call_llm_def)
qed

theorem call_llm_returns_plain_text_witness:
  "call_llm (canned_env (ChatResponse [Some ''OK'']))
      (provider_agent ''openai'' (OpenAIClient (PStr ''sk'') (PStr ''https://api.openai.com/v1'')))
      hello [] = Inr ''OK''
   \<and> call_llm (canned_env (MessagesResponse (Some [TextBlock ''OK''])))
      (provider_agent ''anthropic'' (AnthropicClient (PStr ''sk''))) hello [] = Inr ''OK''
   \<and> call_llm (canned_env (GenerateResponse [[''OK'']]))
      (provider_agent ''gemini'' (GeminiClient (PStr ''sk''))) hello [] = Inr ''OK''"
  using
    call_llm_returns_plain_text
      [where m = "provider_agent ''openai'' (OpenAIClient (PStr ''sk'') (PStr ''https://api.openai.com/v1''))"
         and cfg = "[(''api_key'', PStr ''sk''), (''model'', PStr ''m1'')]"
         and provider = "''openai''"
         and cl = "OpenAIClient (PStr ''sk'') (PStr ''https://api.openai.com/v1'')"
         and k = "PStr ''sk''" and u = "PStr ''https://api.openai.com/v1''"
         and e = "canned_env (ChatResponse [Some ''OK''])" and choices = "[]"
         and messages = hello and kwargs = "[]"]
    call_llm_returns_plain_text
      [where m = "provider_agent ''anthropic'' (AnthropicClient (PStr ''sk''))"
         and cfg = "[(''api_key'', PStr ''sk''), (''model'', PStr ''m1'')]"
         and provider = "''anthropic''"
         and cl = "AnthropicClient (PStr ''sk'')" and k = "PStr ''sk''"
         and e = "canned_env (MessagesResponse (Some [TextBlock ''OK'']))" and blocks = "[]"
         and messages = hello and kwargs = "[]"]
    call_llm_returns_plain_text
      [where m = "provider_agent ''gemini'' (GeminiClient (PStr ''sk''))"
         and cfg = "[(''api_key'', PStr ''sk''), (''model'', PStr ''m1'')]"
         and provider = "''gemini''"
         and cl = "GeminiClient (PStr ''sk'')" and k = "PStr ''sk''"
         and e = "canned_env (GenerateResponse [[''OK'']])" and parts = "[]" and candidates = "[]"
         and messages = hello and kwargs = "[]"]
  by (simp add: provider_agent_def init_agent_def canned_env_def offline_def)



text \<open>
  C6 (as stated). The claim is that the call fails when the first content block has no
  text variant. \<open>_call_anthropic\<close> has an \<open>else\<close> branch for that block: it
  returns \<open>str\<close> of the block, as a normal result.
\<close>

theorem non_text_block_returned_counterexample:
  "call_anthropic (canned_env (MessagesResponse (Some [OtherBlock ''ToolUseBlock(id=1)''])))
      (provider_agent ''anthropic'' (AnthropicClient (PStr ''sk'')))
      (AnthropicClient (PStr ''sk'')) hello []
     = Inr ''ToolUseBlock(id=1)''"
  by (simp add: call_anthropic_def provider_agent_def init_agent_def canned_env_def offline_def
        hello_def)

text \<open>
  C6 (amended). In the structured-turn adapter the result is read from the first
  content block of the reply: the block's text when it has the text variant, and the
  string form of the block when it has not; the call fails, with the adapter's
  response-format exception, only when the reply has no content or an empty content
  list.
\<close>

theorem call_anthropic_first_block:
  assumes "llm_config m = PDict cfg"
    and "\<forall>rq. llm_create e (AnthropicClient k) rq = Inr (MessagesResponse content)"
  shows "call_anthropic e m (AnthropicClient k) messages kwargs =
           (case content of
              Some (TextBlock txt # blocks) \<Rightarrow> Inr txt
            | Some (OtherBlock repr # blocks) \<Rightarrow> Inr repr
            | Some [] \<Rightarrow> Inl (PyException ''Anthropic API response format abnormal'')
            | None \<Rightarrow> Inl (PyException ''Anthropic API response format abnormal''))"
  using assms
  by (simp add: call_anthropic_def split: prod.splits option.splits list.splits content_block.splits)

theorem call_anthropic_first_block_witness:
  "call_anthropic (canned_env (MessagesResponse (Some [TextBlock ''OK'', OtherBlock ''x''])))
      (provider_agent ''anthropic'' (AnthropicClient (PStr ''sk'')))
      (AnthropicClient (PStr ''sk'')) hello [] = Inr ''OK''
   \<and> call_anthropic (canned_env (MessagesResponse (Some [])))
      (provider_agent ''anthropic'' (AnthropicClient (PStr ''sk'')))
      (AnthropicClient (PStr ''sk'')) hello []
     = Inl (PyException ''Anthropic API response format abnormal'')"
  using
    call_anthropic_first_block
      [of "provider_agent ''anthropic'' (AnthropicClient (PStr ''sk''))"
          "[(''api_key'', PStr ''sk''), (''model'', PStr ''m1'')]"
          "canned_env (MessagesResponse (Some [TextBlock ''OK'', OtherBlock ''x'']))"
          "PStr ''sk''" "Some [TextBlock ''OK'', OtherBlock ''x'']" hello "[]"]
    call_anthropic_first_block
      [of "provider_agent ''anthropic'' (AnthropicClient (PStr ''sk''))"
          "[(''api_key'', PStr ''sk''), (''model'', PStr ''m1'')]"
          "canned_env (MessagesResponse (Some []))"
          "PStr ''sk''" "Some []" hello "[]"]
  by (simp add: provider_agent_def init_agent_def canned_env_def offline_def)

subsection \<open>Loading the provider configuration\<close>

text \<open>
  C2. The claim is that a transport failure, a timeout or an answer outside 2xx of the
  backend all lead to the local fallback, without an exception. The two \<open>except\<close>
  clauses of \<open>_load_llm_config\<close> do that for every exception, but an answer whose
  status is not 200 raises nothing and meets no \<open>else\<close>: the method returns \<open>None\<close>
  and the local source is never read. With one and the same local configuration, the
  manager ends with no provider when the backend answers 500, and with the local
  OpenAI provider active when the backend is unreachable.
\<close>

theorem non_200_answer_no_fallback:
  "load_llm_config backend_500_env init_agent = (init_agent, Inr PNone)
   \<and> current_provider (fst (load_llm_config backend_500_env init_agent)) = None
   \<and> snd (load_llm_config backend_down_env init_agent) = Inr (PBool True)
   \<and> current_provider (fst (load_llm_config backend_down_env init_agent)) = Some ''openai''"
  by (simp add: load_llm_config_def backend_500_env_def backend_down_env_def offline_def
        fallback_to_local_config_def configure_from_def local_openai_config_def
        init_provider_def init_openai_client_def set_status_provider_def select_provider_def
        init_agent_def Let_def)














lemma fallback_to_local_config_ok:
  assumes "configure_from e m ''local'' (settings_default_provider e)
             (py_get (settings_config e) ''llm_providers'' (PDict [])) = (m', None)"
  shows "fallback_to_local_config e m = (m', Inr (PBool True))"
  using assms by (simp add: fallback_to_local_config_def)




subsection \<open>The document flows\<close>

lemma py_strip_markup: "py_strip ''markup'' = ''markup''"
  by (simp add: py_strip_def is_space_def)

lemma py_strip_paper: "py_strip ''paper'' = ''paper''"
  by (simp add: py_strip_def is_space_def)

lemma extract_latex_markup: "extract_latex_code ''markup'' = ''markup''"
  by (simp add: extract_latex_code_def py_strip_markup documentclass_def)




lemma ppt_service_errors_Inl:
  "\<exists>msg. ppt_service_errors pre (Inl err) = Inl (PyException msg)"
  by (cases err) (simp_all add: ppt_service_errors_def)


lemma handle_latex_project_compile:
  assumes "dict_get ps ''uploaded_file_path'' PNone = PStr path" and "path \<noteq> []"
    and "upload_exists e path"
    and "mcp_clients m ''ppt_generator'' = Some url" and "url \<noteq> []"
    and "extract_tex_content e url path (dict_get ps ''main_tex_filename'' (PStr ''main.tex''))
           = Inr latex"
    and "llm_guard m = Inr ()"
    and "\<forall>p. author_beamer e m p = Inr beamer"
  shows "handle_latex_project e m (PDict ps) =
           reraise_as ''handling the LaTeX project failed: ''
             (compile_project e url (PDict ps) path
                (dict_get ps ''main_tex_filename'' (PStr ''main.tex''))
                (dict_get ps ''title'' (PStr ''presentation''))
                (dict_get ps ''theme'' (PStr ''academic'')) beamer)"
  using assms unfolding handle_latex_project_def
  by (simp del: dict_get_def)







text \<open>
  The style-variant branch of the project flow ends without a \<open>return\<close>: when its
  compilation succeeds the flow returns \<open>None\<close>, and \<open>process_task\<close> stores the
  task as completed with no result.
\<close>

lemma style_variant_project_completed_without_result:
  "tasks (fst (process_task style_env ppt_agent ''t1'' style_task)) ''t1''
       = Some \<lparr>status = ''completed'', data = style_task, result = PNone, error = None\<rparr>"
proof -
  define m1 where "m1 = process_task_begin style_env ppt_agent ''t1'' style_task"
  have fields: "mcp_clients m1 ''ppt_generator'' = Some ''http://localhost:8002''"
    "llm_guard m1 = Inr ()"
    by (simp_all add: m1_def process_task_begin_def update_backend_task_def llm_guard_def
          ppt_agent_def provider_agent_def init_agent_def)
  have cl: "call_llm style_env m1 msgs [] = Inr ''markup''" for msgs
    by (simp add: m1_def process_task_begin_def update_backend_task_def call_llm_def
          call_openai_compatible_def ppt_agent_def provider_agent_def
          init_agent_def style_env_def offline_def py_strip_markup)
  have a: "\<forall>p. author_beamer style_env m1 p = Inr ''markup''"
    by (simp add: author_beamer_def cl reraise_as_def py_strip_markup extract_latex_markup)
  have x: "extract_tex_content style_env ''http://localhost:8002'' ''paper.zip''
             (PStr ''main.tex'') = Inr ''paper''"
    by (simp add: extract_tex_content_def style_env_def offline_def checked_json_def
          py_strip_paper)
  have c: "compile_project style_env ''http://localhost:8002''
             (PDict [(''input_type'', PStr ''latex_project''),
                     (''uploaded_file_path'', PStr ''paper.zip''),
                     (''use_ucas_style'', PBool True)])
             ''paper.zip'' (PStr ''main.tex'') (PStr ''presentation'') (PStr ''academic'') ''markup''
           = Inr PNone"
    by (simp add: compile_project_def style_env_def offline_def
          checked_json_def ppt_service_errors_def)
  have h: "handle_latex_project style_env m1
             (PDict [(''input_type'', PStr ''latex_project''),
                     (''uploaded_file_path'', PStr ''paper.zip''),
                     (''use_ucas_style'', PBool True)]) = Inr PNone"
    using handle_latex_project_compile
      [where e = style_env and m = m1 and path = "''paper.zip''"
         and url = "''http://localhost:8002''" and latex = "''paper''" and beamer = "''markup''"
         and ps = "[(''input_type'', PStr ''latex_project''),
                    (''uploaded_file_path'', PStr ''paper.zip''),
                    (''use_ucas_style'', PBool True)]", OF _ _ _ fields(1) _ _ fields(2) a]
      x c
    by (simp add: reraise_as_def) (simp add: style_env_def offline_def)
  have f: "task_flow style_env m1 style_task = Inr PNone"
    by (simp add: task_flow_def style_task_def process_with_llm_def generate_ppt_with_llm_def h)
  show ?thesis
    unfolding process_task_def Let_def m1_def [symmetric] f
    by (simp add: tasks_process_task_end) (simp add: m1_def tasks_process_task_begin)
qed

subsection \<open>Extraction\<close>
































end
